theory Spec2Isabelle
  imports Complex_Main "HOL-Library.AList"
begin

section \<open>Values of the program\<close>

subsection \<open>Strings\<close>

text \<open>
  A Python \<open>str\<close> is a sequence of code points. The model covers the strings whose code
  points are below 256 (every literal of \<open>main_mcp.py\<close> that the modelled functions use is
  one), so a \<^typ>\<open>char\<close> stands for one code point, not for a byte of an encoding.
  The accented letters of the Portuguese messages are given by their code points.
\<close>

definition a_tilde :: string where
  "a_tilde = [CHR 0xE3]"

definition a_acute :: string where
  "a_acute = [CHR 0xE1]"

definition i_acute :: string where
  "i_acute = [CHR 0xED]"

text \<open>
  \<open>str.lower()\<close> on code points below 256: the letters \<open>A\<close> to \<open>Z\<close> and the capital
  letters \<open>U+00C0\<close> to \<open>U+00DE\<close> (without the multiplication sign \<open>U+00D7\<close>) move up by 32,
  every other code point stays.
\<close>

definition lower_char :: "char \<Rightarrow> char" where
  "lower_char c =
     (let n = (of_char c :: nat)
      in if (65 \<le> n \<and> n \<le> 90) \<or> (192 \<le> n \<and> n \<le> 222 \<and> n \<noteq> 215)
         then char_of (n + 32) else c)"

definition lower :: "string \<Rightarrow> string" where
  "lower s = map lower_char s"

text \<open>\<open>', '.join(names)\<close>\<close>

fun join_comma :: "string list \<Rightarrow> string" where
  "join_comma [] = []"
| "join_comma [s] = s"
| "join_comma (s # t # ss) = s @ '', '' @ join_comma (t # ss)"

text \<open>\<open>str(n)\<close> for a non-negative integer: its decimal digits.\<close>

fun str_nat :: "nat \<Rightarrow> string" where
  "str_nat n =
     (if n < 10 then [char_of (48 + n)]
      else str_nat (n div 10) @ [char_of (48 + n mod 10)])"

declare str_nat.simps [simp del]

subsection \<open>JSON values\<close>

text \<open>
  The values that \<open>json.loads\<close> produces and \<open>json.dumps\<close> accepts. A \<open>dict\<close> is an
  association list in insertion order, as Python keeps it; the tools' replies are modelled
  as the value handed to \<open>json.dumps\<close>.
\<close>

datatype json =
    JNull
  | JBool bool
  | JInt int
  | JFloat real
  | JStr string
  | JArr "json list"
  | JObj "(string \<times> json) list"

subsection \<open>Exceptions\<close>

text \<open>
  The exception classes that the handlers of the program tell apart, and the built-in
  ones that the modelled operations raise. All of them are subclasses of \<open>Exception\<close>;
  signals outside \<open>Exception\<close> (\<open>KeyboardInterrupt\<close>, \<open>SystemExit\<close>) are not modelled.
  \<open>RequestsJSONDecodeError\<close> is \<open>requests.exceptions.JSONDecodeError\<close>, which inherits
  from both \<open>json.JSONDecodeError\<close> and \<open>RequestException\<close>.
\<close>

datatype exn_class =
    JSONDecodeError
  | RequestsJSONDecodeError
  | Timeout
  | ConnectionError
  | RequestException
  | KeyError
  | IndexError
  | TypeError
  | RuntimeError
  | Exception

datatype exn = Exn exn_class string

fun class_of :: "exn \<Rightarrow> exn_class" where
  "class_of (Exn c m) = c"

text \<open>\<open>str(e)\<close>\<close>

fun str_exn :: "exn \<Rightarrow> string" where
  "str_exn (Exn c m) = m"

text \<open>\<open>is_subclass c d\<close>: an exception of class \<open>c\<close> is caught by \<open>except d\<close>.\<close>

fun is_subclass :: "exn_class \<Rightarrow> exn_class \<Rightarrow> bool" where
  "is_subclass c Exception = True"
| "is_subclass c RequestException =
     (c = RequestException \<or> c = Timeout \<or> c = ConnectionError \<or> c = RequestsJSONDecodeError)"
| "is_subclass c JSONDecodeError = (c = JSONDecodeError \<or> c = RequestsJSONDecodeError)"
| "is_subclass c d = (c = d)"

definition isinstance :: "exn \<Rightarrow> exn_class \<Rightarrow> bool" where
  "isinstance e d = is_subclass (class_of e) d"

section \<open>Map scanner\<close>

definition map_layout :: "string list" where
  "map_layout =
     [ ''####################'',
       ''#P   1   W   2     #'',
       ''#                  #'',
       ''#    B   h   M   C #'',
       ''#                  #'',
       ''# 3   4       5    #'',
       ''#                  #'',
       ''#                  #'',
       ''# 5           6    #'',
       ''####################'' ]"

text \<open>The dict \<open>{"x": x, "y": y}\<close>.\<close>

definition coord :: "nat \<Rightarrow> nat \<Rightarrow> json" where
  "coord x y = JObj [(''x'', JInt (int x)), (''y'', JInt (int y))]"

text \<open>
  The body of the inner loop of \<open>detect_map_coordinates\<close>. The assignment
  \<open>destinations[k] = v\<close> is \<^const>\<open>AList.update\<close>: it overwrites the value of a key that is
  present, at its place, and appends a key that is new.
\<close>

definition scan_tile :: "nat \<Rightarrow> nat \<times> char \<Rightarrow> (string \<times> json) list \<Rightarrow> (string \<times> json) list" where
  "scan_tile y xt destinations =
     (let x = fst xt; tile = snd xt
      in if tile = CHR ''h'' then AList.update ''casa'' (coord x y) destinations
         else if tile = CHR ''W'' then AList.update ''trabalho'' (coord x y) destinations
         else if tile = CHR ''M'' then AList.update ''mercado'' (coord x y) destinations
         else if tile = CHR ''B'' then AList.update ''banco'' (coord x y) destinations
         else if tile = CHR ''C'' then AList.update ''loja_carros'' (coord x y) destinations
         else destinations)"

text \<open>\<open>for x, tile in enumerate(row)\<close>\<close>

definition scan_row :: "nat \<times> string \<Rightarrow> (string \<times> json) list \<Rightarrow> (string \<times> json) list" where
  "scan_row yrow destinations =
     fold (scan_tile (fst yrow)) (enumerate 0 (snd yrow)) destinations"

text \<open>
  \<open>for y, row in enumerate(map_layout)\<close>, starting from the empty dict. The source scans
  its own constant grid; the grid is a parameter here so that the scan can be stated for
  every grid.
\<close>

definition scan_map :: "string list \<Rightarrow> (string \<times> json) list" where
  "scan_map layout = fold scan_row (enumerate 0 layout) []"

definition detect_map_coordinates :: "(string \<times> json) list" where
  "detect_map_coordinates = scan_map map_layout"

definition get_destinations :: json where
  "get_destinations =
     JObj [(''destinations'', JObj detect_map_coordinates),
           (''message'', JStr ''Coordenadas detectadas automaticamente do mapa'')]"

text \<open>
  The positions \<open>(x, y)\<close> of a character in a grid, in row-major order: rows from top to
  bottom, columns from left to right.
\<close>

definition row_occurrences :: "char \<Rightarrow> nat \<times> string \<Rightarrow> (nat \<times> nat) list" where
  "row_occurrences c yrow =
     map (\<lambda>xt. (fst xt, fst yrow)) (filter (\<lambda>xt. snd xt = c) (enumerate 0 (snd yrow)))"

definition occurrences :: "char \<Rightarrow> string list \<Rightarrow> (nat \<times> nat) list" where
  "occurrences c layout = concat (map (row_occurrences c) (enumerate 0 layout))"

text \<open>The coordinates of the first and of the last occurrence of a character, if any.\<close>

definition first_seen :: "char \<Rightarrow> string list \<Rightarrow> json option" where
  "first_seen c layout =
     (let ps = occurrences c layout
      in if ps = [] then None else Some (coord (fst (hd ps)) (snd (hd ps))))"

definition last_seen :: "char \<Rightarrow> string list \<Rightarrow> json option" where
  "last_seen c layout =
     (let ps = occurrences c layout
      in if ps = [] then None else Some (coord (fst (last ps)) (snd (last ps))))"

text \<open>The marker characters and the names that \<open>detect_map_coordinates\<close> gives them.\<close>

definition marker_table :: "(char \<times> string) list" where
  "marker_table =
     [(CHR ''h'', ''casa''), (CHR ''W'', ''trabalho''), (CHR ''M'', ''mercado''),
      (CHR ''B'', ''banco''), (CHR ''C'', ''loja_carros'')]"

section \<open>Server state\<close>

text \<open>
  The globals that the modelled handlers read and write: \<open>last_player_status\<close> and
  \<open>js_command_queue\<close>. Every entry appended to \<open>js_command_queue\<close> is a dict with exactly
  the keys \<open>script\<close> and \<open>timestamp\<close>, the latter the value of \<open>time.time()\<close> at the
  append; clock values are real numbers here. (The second list, \<open>js_commands\<close>, is only
  ever appended to and is left out.)
\<close>

record queued_script =
  script :: json
  timestamp :: real

record server_state =
  last_player_status :: json
  js_command_queue :: "queued_script list"

definition initial_state :: server_state where
  "initial_state =
     \<lparr> last_player_status =
         JObj [(''stamina'', JInt 100),
               (''dinheiro_bolso'', JInt 0),
               (''dinheiro_banco'', JInt 0),
               (''coordenadas'', JObj [(''x'', JInt 1), (''y'', JInt 1)]),
               (''localizacao_atual'', JStr ''casa''),
               (''carros'', JInt 0)],
       js_command_queue = [] \<rparr>"

datatype http_error = HTTPException nat string

text \<open>Python's truth value of a JSON value (\<open>if not script\<close>).\<close>

fun truthy :: "json \<Rightarrow> bool" where
  "truthy JNull = False"
| "truthy (JBool b) = b"
| "truthy (JInt i) = (i \<noteq> 0)"
| "truthy (JFloat r) = (r \<noteq> 0)"
| "truthy (JStr s) = (s \<noteq> [])"
| "truthy (JArr vs) = (vs \<noteq> [])"
| "truthy (JObj kvs) = (kvs \<noteq> [])"

subsection \<open>Status cache\<close>

text \<open>
  The handlers take the request body, a dict, as a map from keys to values, and return
  their reply together with the new state.
\<close>

definition update_player_status ::
  "(string \<rightharpoonup> json) \<Rightarrow> server_state \<Rightarrow> json \<times> server_state" where
  "update_player_status request st =
     (JObj [(''success'', JBool True), (''message'', JStr ''Status atualizado'')],
      (case request ''player_status'' of
         Some p \<Rightarrow> st\<lparr>last_player_status := p\<rparr>
       | None \<Rightarrow> st))"

definition get_current_player_status :: "server_state \<Rightarrow> json" where
  "get_current_player_status st = JObj [(''player_status'', last_player_status st)]"

subsection \<open>Command queue\<close>

text \<open>\<open>POST /api/execute-js\<close> at clock value \<open>now\<close>.\<close>

definition execute_js_endpoint ::
  "real \<Rightarrow> (string \<rightharpoonup> json) \<Rightarrow> server_state \<Rightarrow> (http_error + json) \<times> server_state" where
  "execute_js_endpoint now request st =
     (case request ''script'' of
        None \<Rightarrow> (Inl (HTTPException 400 ''script is required''), st)
      | Some s \<Rightarrow>
          if \<not> truthy s then (Inl (HTTPException 400 ''script is required''), st)
          else (Inr (JObj [(''success'', JBool True),
                           (''message'', JStr (''Script adicionado '' @ [CHR 0xE0]
                                               @ '' fila de execu'' @ [CHR 0xE7] @ a_tilde @ ''o''))]),
                st\<lparr>js_command_queue :=
                     js_command_queue st @ [\<lparr>script = s, timestamp = now\<rparr>]\<rparr>))"

text \<open>
  \<open>GET /api/js-commands\<close> at clock value \<open>current_time\<close>. The first component is the list
  that the handler returns under the key \<open>commands\<close>.
\<close>

definition get_js_commands :: "real \<Rightarrow> server_state \<Rightarrow> queued_script list \<times> server_state" where
  "get_js_commands current_time st =
     (let filtered = filter (\<lambda>cmd. current_time - timestamp cmd < 30) (js_command_queue st);
          commands = filtered
      in (commands, st\<lparr>js_command_queue := []\<rparr>))"

section \<open>Python operations on JSON values\<close>

definition try_bind :: "exn + 'a \<Rightarrow> ('a \<Rightarrow> exn + 'b) \<Rightarrow> exn + 'b" where
  "try_bind m f = (case m of Inl e \<Rightarrow> Inl e | Inr v \<Rightarrow> f v)"

fun type_name :: "json \<Rightarrow> string" where
  "type_name JNull = ''NoneType''"
| "type_name (JBool b) = ''bool''"
| "type_name (JInt i) = ''int''"
| "type_name (JFloat r) = ''float''"
| "type_name (JStr s) = ''str''"
| "type_name (JArr vs) = ''list''"
| "type_name (JObj kvs) = ''dict''"

fun is_prefix :: "string \<Rightarrow> string \<Rightarrow> bool" where
  "is_prefix [] t = True"
| "is_prefix (c # s) [] = False"
| "is_prefix (c # s) (d # t) = (c = d \<and> is_prefix s t)"

fun str_contains :: "string \<Rightarrow> string \<Rightarrow> bool" where
  "str_contains k [] = (k = [])"
| "str_contains k (d # t) = (is_prefix k (d # t) \<or> str_contains k t)"

text \<open>
  The operations below raise what CPython raises; the message texts are CPython's and
  only reach the \<open>Erro interno\<close> replies.

  \<open>k in v\<close> for a string \<open>k\<close>: key of a dict, element of a list, substring of a string.
\<close>

fun py_contains :: "string \<Rightarrow> json \<Rightarrow> exn + bool" where
  "py_contains k (JObj kvs) = Inr (k \<in> set (map fst kvs))"
| "py_contains k (JArr vs) = Inr (JStr k \<in> set vs)"
| "py_contains k (JStr s) = Inr (str_contains k s)"
| "py_contains k v =
     Inl (Exn TypeError (''argument of type '' @ [CHR 0x27] @ type_name v @ [CHR 0x27]
                         @ '' is not iterable''))"

text \<open>\<open>v[k]\<close> for a string \<open>k\<close>\<close>

fun py_getitem :: "json \<Rightarrow> string \<Rightarrow> exn + json" where
  "py_getitem (JObj kvs) k =
     (case map_of kvs k of
        Some v \<Rightarrow> Inr v
      | None \<Rightarrow> Inl (Exn KeyError ([CHR 0x27] @ k @ [CHR 0x27])))"
| "py_getitem (JArr vs) k =
     Inl (Exn TypeError ''list indices must be integers or slices, not str'')"
| "py_getitem (JStr s) k =
     Inl (Exn TypeError ''string indices must be integers'')"
| "py_getitem v k =
     Inl (Exn TypeError ([CHR 0x27] @ type_name v @ [CHR 0x27] @ '' object is not subscriptable''))"

text \<open>\<open>v[0]\<close>\<close>

fun py_getitem0 :: "json \<Rightarrow> exn + json" where
  "py_getitem0 (JArr []) = Inl (Exn IndexError ''list index out of range'')"
| "py_getitem0 (JArr (v # vs)) = Inr v"
| "py_getitem0 (JStr []) = Inl (Exn IndexError ''string index out of range'')"
| "py_getitem0 (JStr (c # s)) = Inr (JStr [c])"
| "py_getitem0 (JObj kvs) = Inl (Exn KeyError ''0'')"
| "py_getitem0 v =
     Inl (Exn TypeError ([CHR 0x27] @ type_name v @ [CHR 0x27] @ '' object is not subscriptable''))"

text \<open>\<open>len(v)\<close>\<close>

fun py_len :: "json \<Rightarrow> exn + nat" where
  "py_len (JObj kvs) = Inr (length kvs)"
| "py_len (JArr vs) = Inr (length vs)"
| "py_len (JStr s) = Inr (length s)"
| "py_len v =
     Inl (Exn TypeError (''object of type '' @ [CHR 0x27] @ type_name v @ [CHR 0x27]
                         @ '' has no len()''))"

section \<open>Upstream generation call\<close>

text \<open>
  What \<open>requests\<close> hands back: the status code, \<open>response.text\<close> and the outcome of
  \<open>response.json()\<close>. \<open>response.ok\<close> is false exactly for the status codes from 400 to 599.
\<close>

record response =
  status_code :: nat
  resp_text :: string
  resp_json :: "exn + json"

definition ok :: "response \<Rightarrow> bool" where
  "ok r = (\<not> (400 \<le> status_code r \<and> status_code r < 600))"

text \<open>
  The surroundings of \<open>generate_gemini_content\<close>: the value of \<open>os.getenv("GEMINI_API_KEY")\<close>,
  the outcome of \<open>json.loads\<close> on a string, and the outcome of \<open>requests.post\<close> for a URL
  and a JSON payload. An outcome is a value or the exception raised.
\<close>

record gemini_env =
  GEMINI_API_KEY :: "string option"
  json_loads :: "string \<Rightarrow> exn + json"
  requests_post :: "string \<Rightarrow> json \<Rightarrow> exn + response"

definition api_url :: "string \<Rightarrow> string" where
  "api_url api_key =
     ''https://generativelanguage.googleapis.com/v1beta/models/gemini-2.5-flash-preview-05-20:generateContent?key=''
     @ api_key"

text \<open>The four \<open>except\<close> clauses of \<open>generate_gemini_content\<close>, in the order of the source.\<close>

definition gemini_except :: "exn \<Rightarrow> json" where
  "gemini_except e =
     (if isinstance e JSONDecodeError then
        JObj [(''error'', JStr (''JSON inv'' @ a_acute @ ''lido fornecido'')),
              (''status_code'', JInt 400)]
      else if isinstance e Timeout then
        JObj [(''error'', JStr ''Timeout na chamada da API Gemini''),
              (''status_code'', JInt 408)]
      else if isinstance e RequestException then
        JObj [(''error'', JStr (''Erro de conex'' @ a_tilde @ ''o com a API Gemini: '' @ str_exn e)),
              (''status_code'', JInt 500)]
      else
        JObj [(''error'', JStr (''Erro interno: '' @ str_exn e)),
              (''status_code'', JInt 500)])"

definition invalid_response :: json where
  "invalid_response =
     JObj [(''error'', JStr (''Resposta inv'' @ a_acute @ ''lida da API Gemini'')),
           (''status_code'', JInt 500)]"

text \<open>
  The statements after \<open>result = response.json()\<close>: the test
  \<open>"candidates" in result and len(result["candidates"]) > 0\<close> and the extraction
  \<open>result["candidates"][0]["content"]["parts"][0]["text"]\<close>.
\<close>

definition extract_response :: "json \<Rightarrow> exn + json" where
  "extract_response result =
     try_bind (py_contains ''candidates'' result) (\<lambda>has_candidates.
       if \<not> has_candidates then Inr invalid_response
       else
         try_bind (py_getitem result ''candidates'') (\<lambda>cs.
         try_bind (py_len cs) (\<lambda>n.
           if 0 < n then
             try_bind (py_getitem result ''candidates'') (\<lambda>candidates.
             try_bind (py_getitem0 candidates) (\<lambda>candidate.
             try_bind (py_getitem candidate ''content'') (\<lambda>content.
             try_bind (py_getitem content ''parts'') (\<lambda>parts.
             try_bind (py_getitem0 parts) (\<lambda>part.
             try_bind (py_getitem part ''text'') (\<lambda>ai_response.
               Inr (JObj [(''response'', ai_response)])))))))
           else Inr invalid_response)))"

text \<open>
  The reply, and the list of network calls made (URL and JSON payload of each
  \<open>requests.post\<close>).
\<close>

definition generate_gemini_content :: "gemini_env \<Rightarrow> string \<Rightarrow> json \<times> (string \<times> json) list" where
  "generate_gemini_content env contents_json =
     (case GEMINI_API_KEY env of
        None \<Rightarrow>
          (JObj [(''error'', JStr (''GEMINI_API_KEY n'' @ a_tilde @ ''o configurada no arquivo .env'')),
                 (''status_code'', JInt 500)], [])
      | Some api_key \<Rightarrow>
          if api_key = [] then
            (JObj [(''error'', JStr (''GEMINI_API_KEY n'' @ a_tilde @ ''o configurada no arquivo .env'')),
                   (''status_code'', JInt 500)], [])
          else
            (case json_loads env contents_json of
               Inl e \<Rightarrow> (gemini_except e, [])
             | Inr contents \<Rightarrow>
                 (let payload = JObj [(''contents'', contents)];
                      call = (api_url api_key, payload)
                  in case requests_post env (api_url api_key) payload of
                       Inl e \<Rightarrow> (gemini_except e, [call])
                     | Inr r \<Rightarrow>
                         if \<not> ok r then
                           (JObj [(''error'', JStr (''Erro na API Gemini: '' @ str_nat (status_code r)
                                                    @ '' - '' @ resp_text r)),
                                  (''status_code'', JInt (int (status_code r)))], [call])
                         else
                           (case resp_json r of
                              Inl e \<Rightarrow> (gemini_except e, [call])
                            | Inr result \<Rightarrow>
                                (case extract_response result of
                                   Inl e \<Rightarrow> (gemini_except e, [call])
                                 | Inr reply \<Rightarrow> (reply, [call]))))))"

text \<open>The \<open>status_code\<close> entry of a reply.\<close>

definition reply_status :: "json \<Rightarrow> json option" where
  "reply_status reply = (case reply of JObj kvs \<Rightarrow> map_of kvs ''status_code'' | _ \<Rightarrow> None)"

text \<open>
  The first candidate's first text part, following the words of the specification: the
  response is an object whose \<open>candidates\<close> is a non-empty array, whose first element is an
  object whose \<open>content\<close> is an object whose \<open>parts\<close> is a non-empty array, whose first
  element is an object with a \<open>text\<close> entry.
\<close>

fun member_of :: "string \<Rightarrow> json \<Rightarrow> json option" where
  "member_of k (JObj kvs) = map_of kvs k"
| "member_of k v = None"

fun first_of :: "json \<Rightarrow> json option" where
  "first_of (JArr (v # vs)) = Some v"
| "first_of v = None"

definition first_text_part :: "json \<Rightarrow> json option" where
  "first_text_part result =
     Option.bind (member_of ''candidates'' result) (\<lambda>candidates.
     Option.bind (first_of candidates) (\<lambda>candidate.
     Option.bind (member_of ''content'' candidate) (\<lambda>content.
     Option.bind (member_of ''parts'' content) (\<lambda>parts.
     Option.bind (first_of parts) (\<lambda>part.
       member_of ''text'' part)))))"

section \<open>Status query\<close>

text \<open>
  \<open>get_player_status\<close> returns either the text of the live response as it came, or the
  \<open>json.dumps\<close> of a dict. Its argument is the outcome of the one \<open>requests.get\<close>; the
  cached status is read after it.
\<close>

datatype tool_text = Verbatim string | Dumps json

definition get_player_status :: "exn + response \<Rightarrow> server_state \<Rightarrow> tool_text" where
  "get_player_status fetched st =
     (case fetched of
        Inr r \<Rightarrow>
          if status_code r = 200 then Verbatim (resp_text r)
          else Dumps (JObj [(''player_status'', last_player_status st)])
      | Inl e \<Rightarrow>
          Dumps (JObj [(''player_status'', last_player_status st),
                       (''error'', JStr (str_exn e))]))"

section \<open>Movement request\<close>

text \<open>
  The surroundings of the notification: whether \<open>asyncio.get_event_loop()\<close> and
  \<open>loop.create_task\<close> go through, whether \<open>asyncio.run\<close> itself raises, and the outcome of
  \<open>session.post\<close> with a script.
\<close>

record notify_env =
  create_task :: "exn + unit"
  asyncio_run :: "exn + unit"
  session_post :: "string \<Rightarrow> exn + unit"

text \<open>The coroutine: its bare \<open>except: pass\<close> swallows every failure of the post.\<close>

definition trigger_frontend_movement :: "notify_env \<Rightarrow> string \<Rightarrow> exn + unit" where
  "trigger_frontend_movement env js =
     (case session_post env js of Inl e \<Rightarrow> Inr () | Inr u \<Rightarrow> Inr ())"

text \<open>
  The inner \<open>try\<close> of \<open>move_player\<close>: the coroutine is handed to the running loop, or, when
  that raises, run by \<open>asyncio.run\<close>, which may raise in turn. The second component lists
  the scripts whose coroutine was started (scheduled or run).
\<close>

definition notify_frontend :: "notify_env \<Rightarrow> string \<Rightarrow> (exn + unit) \<times> string list" where
  "notify_frontend env js =
     (case create_task env of
        Inr u \<Rightarrow> (Inr (), [js])
      | Inl e \<Rightarrow>
          (case asyncio_run env of
             Inl e' \<Rightarrow> (Inl e', [])
           | Inr u \<Rightarrow> (trigger_frontend_movement env js, [js])))"

definition move_player :: "notify_env \<Rightarrow> string \<Rightarrow> json \<times> string list" where
  "move_player env destination =
     (let destinations = detect_map_coordinates;
          destination_lower = lower destination
      in if destination_lower \<notin> set (map fst destinations) then
           (JObj [(''success'', JBool False),
                  (''message'', JStr (''Destino '' @ [CHR 0x27] @ destination @ [CHR 0x27] @ '' n''
                     @ a_tilde @ ''o encontrado. Destinos dispon'' @ i_acute @ ''veis: ''
                     @ join_comma (map fst destinations)))], [])
         else
           (case py_getitem (JObj destinations) destination_lower of
              Inl e \<Rightarrow>
                (JObj [(''success'', JBool False),
                       (''message'', JStr (''Erro ao mover player: '' @ str_exn e))], [])
            | Inr target_position \<Rightarrow>
                (let js = ''window.mcpMovePlayer('' @ [CHR 0x22] @ destination_lower @ [CHR 0x22] @ '')'';
                     started = (case notify_frontend env js of
                                  (Inl js_error, started) \<Rightarrow> started
                                | (Inr u, started) \<Rightarrow> started)
                 in (JObj [(''success'', JBool True),
                           (''message'', JStr (''Executando movimento para '' @ destination_lower @ ''...'')),
                           (''new_position'', target_position),
                           (''frontend_triggered'', JBool True),
                           (''player_status'',
                              JObj [(''destination'', JStr destination_lower),
                                    (''target_coordinates'', target_position),
                                    (''movement_type'', JStr ''pathfinding''),
                                    (''status'', JStr ''moving'')])],
                     started))))"

section \<open>Readings of the replies and sample surroundings\<close>

text \<open>A reply is of the 500 class when its \<open>status_code\<close> is an integer from 500 to 599.\<close>

definition class_500 :: "json \<Rightarrow> bool" where
  "class_500 reply =
     (case reply_status reply of
        Some (JInt c) \<Rightarrow> 500 \<le> c \<and> c < 600
      | _ \<Rightarrow> False)"

text \<open>The \<open>error\<close> entry of what \<open>get_player_status\<close> returns, when it is a dumped dict.\<close>

definition reply_error :: "tool_text \<Rightarrow> json option" where
  "reply_error out = (case out of Dumps v \<Rightarrow> member_of ''error'' v | Verbatim s \<Rightarrow> None)"

text \<open>
  Surroundings that answer every call the same way, for the sample runs: the key, the
  outcome of \<open>json.loads\<close> and the outcome of \<open>requests.post\<close>; and for the notification,
  the outcomes of \<open>create_task\<close>, \<open>asyncio.run\<close> and \<open>session.post\<close>.
\<close>

definition const_gemini_env :: "string option \<Rightarrow> exn + json \<Rightarrow> exn + response \<Rightarrow> gemini_env" where
  "const_gemini_env key loaded posted =
     \<lparr> GEMINI_API_KEY = key,
       json_loads = (\<lambda>s. loaded),
       requests_post = (\<lambda>url payload. posted) \<rparr>"

definition const_notify_env :: "exn + unit \<Rightarrow> exn + unit \<Rightarrow> exn + unit \<Rightarrow> notify_env" where
  "const_notify_env scheduled run posted =
     \<lparr> create_task = scheduled,
       asyncio_run = run,
       session_post = (\<lambda>js. posted) \<rparr>"

definition sample_response :: "nat \<Rightarrow> string \<Rightarrow> response" where
  "sample_response code body =
     \<lparr> status_code = code,
       resp_text = body,
       resp_json = Inl (Exn RequestsJSONDecodeError ''Expecting value: line 1 column 1 (char 0)'') \<rparr>"

text \<open>A well-shaped body of the upstream provider, with one candidate and one text part.\<close>

definition sample_result :: json where
  "sample_result =
     JObj [(''candidates'',
            JArr [JObj [(''content'',
                         JObj [(''parts'', JArr [JObj [(''text'', JStr ''Ola'')]]),
                               (''role'', JStr ''model'')])]])]"

section \<open>The fixed grid\<close>

lemma detect_map_coordinates_value:
  "detect_map_coordinates =
     [(''trabalho'', coord 9 1), (''banco'', coord 5 3), (''casa'', coord 9 3),
      (''mercado'', coord 13 3), (''loja_carros'', coord 17 3)]"
  by code_simp

lemma destination_names:
  "map fst detect_map_coordinates = [''trabalho'', ''banco'', ''casa'', ''mercado'', ''loja_carros'']"
  by (simp add: detect_map_coordinates_value)

lemma lower_destination_name:
  assumes "k \<in> set (map fst detect_map_coordinates)"
  shows "lower k = k"
proof -
  have "lower ''trabalho'' = ''trabalho''" "lower ''banco'' = ''banco''" "lower ''casa'' = ''casa''"
       "lower ''mercado'' = ''mercado''" "lower ''loja_carros'' = ''loja_carros''"
    by code_simp+
  with assms show ?thesis
    by (auto simp: destination_names)
qed

text \<open>
  Claim C1. The map scanner \<open>detect_map_coordinates\<close>, which \<open>get_destinations\<close> surfaces
  under the key \<open>destinations\<close>, returns exactly five entries: \<open>casa\<close> at \<open>{x: 9, y: 3}\<close>,
  \<open>trabalho\<close> at \<open>{x: 9, y: 1}\<close>, \<open>mercado\<close> at \<open>{x: 13, y: 3}\<close>, \<open>banco\<close> at
  \<open>{x: 5, y: 3}\<close> and \<open>loja_carros\<close> at \<open>{x: 17, y: 3}\<close>, and no other key. Each pair is the
  column \<open>x\<close> and the row \<open>y\<close> of the one place where the marker of that name (\<open>h\<close>, \<open>W\<close>,
  \<open>M\<close>, \<open>B\<close>, \<open>C\<close>) stands in the fixed grid.
\<close>

theorem detect_map_coordinates_fixed_grid:
  "detect_map_coordinates =
     [(''trabalho'', coord 9 1), (''banco'', coord 5 3), (''casa'', coord 9 3),
      (''mercado'', coord 13 3), (''loja_carros'', coord 17 3)]
   \<and> occurrences (CHR ''h'') map_layout = [(9, 3)]
   \<and> occurrences (CHR ''W'') map_layout = [(9, 1)]
   \<and> occurrences (CHR ''M'') map_layout = [(13, 3)]
   \<and> occurrences (CHR ''B'') map_layout = [(5, 3)]
   \<and> occurrences (CHR ''C'') map_layout = [(17, 3)]
   \<and> get_destinations =
       JObj [(''destinations'',
              JObj [(''trabalho'', JObj [(''x'', JInt 9), (''y'', JInt 1)]),
                    (''banco'', JObj [(''x'', JInt 5), (''y'', JInt 3)]),
                    (''casa'', JObj [(''x'', JInt 9), (''y'', JInt 3)]),
                    (''mercado'', JObj [(''x'', JInt 13), (''y'', JInt 3)]),
                    (''loja_carros'', JObj [(''x'', JInt 17), (''y'', JInt 3)])]),
             (''message'', JStr ''Coordenadas detectadas automaticamente do mapa'')]"
proof -
  have d: "detect_map_coordinates =
     [(''trabalho'', coord 9 1), (''banco'', coord 5 3), (''casa'', coord 9 3),
      (''mercado'', coord 13 3), (''loja_carros'', coord 17 3)]"
    by code_simp
  have h: "occurrences (CHR ''h'') map_layout = [(9, 3)]" by code_simp
  have w: "occurrences (CHR ''W'') map_layout = [(9, 1)]" by code_simp
  have m: "occurrences (CHR ''M'') map_layout = [(13, 3)]" by code_simp
  have b: "occurrences (CHR ''B'') map_layout = [(5, 3)]" by code_simp
  have c: "occurrences (CHR ''C'') map_layout = [(17, 3)]" by code_simp
  have g: "get_destinations =
       JObj [(''destinations'',
              JObj [(''trabalho'', JObj [(''x'', JInt 9), (''y'', JInt 1)]),
                    (''banco'', JObj [(''x'', JInt 5), (''y'', JInt 3)]),
                    (''casa'', JObj [(''x'', JInt 9), (''y'', JInt 3)]),
                    (''mercado'', JObj [(''x'', JInt 13), (''y'', JInt 3)]),
                    (''loja_carros'', JObj [(''x'', JInt 17), (''y'', JInt 3)])]),
             (''message'', JStr ''Coordenadas detectadas automaticamente do mapa'')]"
    unfolding get_destinations_def d by (simp add: coord_def)
  from d h w m b c g show ?thesis by blast
qed

section \<open>The scan of any grid\<close>

lemma scan_tile_lookup:
  assumes "(c, n) \<in> set marker_table"
  shows "map_of (scan_tile y xt d) n = (if snd xt = c then Some (coord (fst xt) y) else map_of d n)"
  using assms
  by (auto simp: marker_table_def scan_tile_def Let_def update_conv')

lemma scan_tile_distinct:
  "distinct (map fst d) \<Longrightarrow> distinct (map fst (scan_tile y xt d))"
  by (simp add: scan_tile_def Let_def distinct_update)

lemma fold_scan_tile_lookup:
  assumes "(c, n) \<in> set marker_table"
  shows "map_of (fold (scan_tile y) xts d) n =
          (let ps = filter (\<lambda>xt. snd xt = c) xts
           in if ps = [] then map_of d n else Some (coord (fst (last ps)) y))"
proof (induction xts rule: rev_induct)
  case Nil
  show ?case by simp
next
  case (snoc xt xts)
  then show ?case
    by (simp add: scan_tile_lookup[OF assms] Let_def)
qed

lemma scan_row_lookup:
  assumes "(c, n) \<in> set marker_table"
  shows "map_of (scan_row yrow d) n =
          (let ps = row_occurrences c yrow
           in if ps = [] then map_of d n else Some (coord (fst (last ps)) (snd (last ps))))"
  unfolding scan_row_def row_occurrences_def fold_scan_tile_lookup[OF assms]
  by (simp add: last_map Let_def)

lemma fold_scan_row_lookup:
  assumes "(c, n) \<in> set marker_table"
  shows "map_of (fold scan_row yrows d) n =
          (let ps = concat (map (row_occurrences c) yrows)
           in if ps = [] then map_of d n else Some (coord (fst (last ps)) (snd (last ps))))"
proof (induction yrows rule: rev_induct)
  case Nil
  show ?case by simp
next
  case (snoc yrow yrows)
  then show ?case
    by (simp add: scan_row_lookup[OF assms] Let_def)
qed

lemma scan_map_lookup:
  assumes "(c, n) \<in> set marker_table"
  shows "map_of (scan_map layout) n = last_seen c layout"
  by (simp add: scan_map_def last_seen_def occurrences_def fold_scan_row_lookup[OF assms] Let_def)

lemma fold_scan_tile_distinct:
  "distinct (map fst d) \<Longrightarrow> distinct (map fst (fold (scan_tile y) xts d))"
  by (induction xts arbitrary: d) (simp_all add: scan_tile_distinct)

lemma fold_scan_row_distinct:
  "distinct (map fst d) \<Longrightarrow> distinct (map fst (fold scan_row yrows d))"
  by (induction yrows arbitrary: d) (simp_all add: scan_row_def fold_scan_tile_distinct)

text \<open>
  Claim C5, as amended. For every grid, each destination name maps to the coordinates of
  the last occurrence of its marker in row-major order (rows from top to bottom, columns
  from left to right), and to nothing when the marker does not occur; a later occurrence
  overwrites an earlier one. The names of the result are pairwise distinct, so each name
  maps to at most one coordinate pair.
\<close>

theorem scan_map_last_occurrence_wins:
  "map_of (scan_map layout) ''casa'' = last_seen (CHR ''h'') layout
   \<and> map_of (scan_map layout) ''trabalho'' = last_seen (CHR ''W'') layout
   \<and> map_of (scan_map layout) ''mercado'' = last_seen (CHR ''M'') layout
   \<and> map_of (scan_map layout) ''banco'' = last_seen (CHR ''B'') layout
   \<and> map_of (scan_map layout) ''loja_carros'' = last_seen (CHR ''C'') layout
   \<and> distinct (map fst (scan_map layout))"
proof -
  have "distinct (map fst (scan_map layout))"
    unfolding scan_map_def by (rule fold_scan_row_distinct) simp
  moreover have "map_of (scan_map layout) ''casa'' = last_seen (CHR ''h'') layout"
    by (rule scan_map_lookup) (simp add: marker_table_def)
  moreover have "map_of (scan_map layout) ''trabalho'' = last_seen (CHR ''W'') layout"
    by (rule scan_map_lookup) (simp add: marker_table_def)
  moreover have "map_of (scan_map layout) ''mercado'' = last_seen (CHR ''M'') layout"
    by (rule scan_map_lookup) (simp add: marker_table_def)
  moreover have "map_of (scan_map layout) ''banco'' = last_seen (CHR ''B'') layout"
    by (rule scan_map_lookup) (simp add: marker_table_def)
  moreover have "map_of (scan_map layout) ''loja_carros'' = last_seen (CHR ''C'') layout"
    by (rule scan_map_lookup) (simp add: marker_table_def)
  ultimately show ?thesis by simp
qed

text \<open>
  The claim as it was stated, that the first occurrence is kept, fails on the grid with
  rows \<open>h#\<close> and \<open>#h\<close>: the marker \<open>h\<close> stands at \<open>(0, 0)\<close> and at \<open>(1, 1)\<close>, and the scan
  returns the second place.
\<close>

theorem scan_map_first_occurrence_counterexample:
  "occurrences (CHR ''h'') [''h#'', ''#h''] = [(0, 0), (1, 1)]
   \<and> first_seen (CHR ''h'') [''h#'', ''#h''] = Some (coord 0 0)
   \<and> map_of (scan_map [''h#'', ''#h'']) ''casa'' = Some (coord 1 1)
   \<and> map_of (scan_map [''h#'', ''#h'']) ''casa'' \<noteq> first_seen (CHR ''h'') [''h#'', ''#h'']"
  by code_simp

section \<open>Status cache\<close>

text \<open>
  Claim C9. For every status payload \<open>P\<close>, after \<open>POST /api/player/update-status\<close> with a
  body whose \<open>player_status\<close> is \<open>P\<close>, the cached snapshot is \<open>P\<close> itself, whatever it is
  (nothing is validated or merged), and \<open>GET /api/player/current-status\<close> on the resulting
  state returns \<open>{"player_status": P}\<close>.
\<close>

theorem update_then_current_status:
  assumes "request ''player_status'' = Some P"
  shows "get_current_player_status (snd (update_player_status request st))
           = JObj [(''player_status'', P)]
         \<and> last_player_status (snd (update_player_status request st)) = P
         \<and> js_command_queue (snd (update_player_status request st)) = js_command_queue st"
  using assms by (simp add: update_player_status_def get_current_player_status_def)

theorem update_then_current_status_witness:
  "[''player_status'' \<mapsto> JObj [(''stamina'', JInt 42), (''nota'', JNull)]] ''player_status''
     = Some (JObj [(''stamina'', JInt 42), (''nota'', JNull)])
   \<and> get_current_player_status
       (snd (update_player_status
               [''player_status'' \<mapsto> JObj [(''stamina'', JInt 42), (''nota'', JNull)]]
               initial_state))
     = JObj [(''player_status'', JObj [(''stamina'', JInt 42), (''nota'', JNull)])]"
  using update_then_current_status
          [of "[''player_status'' \<mapsto> JObj [(''stamina'', JInt 42), (''nota'', JNull)]]"
              "JObj [(''stamina'', JInt 42), (''nota'', JNull)]" initial_state]
  by simp

text \<open>
  Claim C10. \<open>POST /api/player/update-status\<close> always replies with \<open>success\<close> true (and
  the message \<open>Status atualizado\<close>). When the body has no \<open>player_status\<close> key the whole
  state, and so the cached snapshot, stays as it was; when the key is there the cached
  snapshot becomes its value. The cache is overwritten exactly when the key is present.
\<close>

theorem update_player_status_overwrites_iff_key:
  "fst (update_player_status request st)
     = JObj [(''success'', JBool True), (''message'', JStr ''Status atualizado'')]
   \<and> (request ''player_status'' = None \<longrightarrow> snd (update_player_status request st) = st)
   \<and> (request ''player_status'' = Some p \<longrightarrow>
        snd (update_player_status request st) = st\<lparr>last_player_status := p\<rparr>)"
  by (simp add: update_player_status_def)

theorem update_player_status_overwrites_iff_key_witness:
  "[''status'' \<mapsto> JInt 1] ''player_status'' = None
   \<and> snd (update_player_status [''status'' \<mapsto> JInt 1] initial_state) = initial_state
   \<and> fst (update_player_status [''status'' \<mapsto> JInt 1] initial_state)
       = JObj [(''success'', JBool True), (''message'', JStr ''Status atualizado'')]
   \<and> [''player_status'' \<mapsto> JNull] ''player_status'' = Some JNull
   \<and> snd (update_player_status [''player_status'' \<mapsto> JNull] initial_state)
       = initial_state\<lparr>last_player_status := JNull\<rparr>"
  using update_player_status_overwrites_iff_key [of "[''status'' \<mapsto> JInt 1]" initial_state JNull]
        update_player_status_overwrites_iff_key [of "[''player_status'' \<mapsto> JNull]" initial_state JNull]
  by simp

section \<open>Command queue\<close>

text \<open>
  Claim C2. A drain of the command queue (\<open>GET /api/js-commands\<close>) at clock value \<open>now\<close>
  returns exactly the entries of the queue whose timestamp lies strictly less than 30
  seconds before \<open>now\<close>, in their order, and leaves the queue empty; so a second drain
  right after it, at any clock value, returns the empty list. In particular a script
  enqueued by \<open>POST /api/execute-js\<close> at clock value \<open>t\<close> is part of the next drain exactly
  when \<open>now - t < 30\<close>.
\<close>

theorem get_js_commands_drain:
  "fst (get_js_commands now st)
     = filter (\<lambda>cmd. now - timestamp cmd < 30) (js_command_queue st)
   \<and> js_command_queue (snd (get_js_commands now st)) = []
   \<and> fst (get_js_commands later (snd (get_js_commands now st))) = []
   \<and> (request ''script'' = Some s \<and> truthy s \<longrightarrow>
        fst (get_js_commands now (snd (execute_js_endpoint t request st)))
          = filter (\<lambda>cmd. now - timestamp cmd < 30) (js_command_queue st)
            @ (if now - t < 30 then [\<lparr>script = s, timestamp = t\<rparr>] else []))"
  by (simp add: get_js_commands_def execute_js_endpoint_def)

theorem get_js_commands_drain_witness:
  "[''script'' \<mapsto> JStr ''go()''] ''script'' = Some (JStr ''go()'') \<and> truthy (JStr ''go()'')
   \<and> fst (get_js_commands 1000 (snd (execute_js_endpoint 999 [''script'' \<mapsto> JStr ''go()''] initial_state)))
       = [\<lparr>script = JStr ''go()'', timestamp = 999\<rparr>]
   \<and> fst (get_js_commands 1000 (snd (execute_js_endpoint 969 [''script'' \<mapsto> JStr ''go()''] initial_state)))
       = []
   \<and> fst (get_js_commands 1000
            (snd (get_js_commands 1000
                    (snd (execute_js_endpoint 999 [''script'' \<mapsto> JStr ''go()''] initial_state)))))
       = []"
  using get_js_commands_drain [of 1000 initial_state 1000 "[''script'' \<mapsto> JStr ''go()'']" "JStr ''go()''" 999]
        get_js_commands_drain [of 1000 initial_state 1000 "[''script'' \<mapsto> JStr ''go()'']" "JStr ''go()''" 969]
        get_js_commands_drain
          [of 1000 "snd (execute_js_endpoint 999 [''script'' \<mapsto> JStr ''go()''] initial_state)" 1000
              "[''script'' \<mapsto> JStr ''go()'']" "JStr ''go()''" 999]
  by (simp add: initial_state_def)

section \<open>Status query\<close>

text \<open>
  Claim C4, as amended. When the live fetch raises (a timeout, a connection error or any
  other exception), \<open>get_player_status\<close> returns the last cached status snapshot with the
  description of the error under the key \<open>error\<close>. When the fetch answers with a status
  other than 200, it returns the last cached snapshot alone, with no error description.
  On a 200 response it returns the live body as it came.
\<close>

theorem get_player_status_fallback:
  "get_player_status (Inl e) st
     = Dumps (JObj [(''player_status'', last_player_status st), (''error'', JStr (str_exn e))])
   \<and> (status_code r \<noteq> 200 \<longrightarrow>
        get_player_status (Inr r) st = Dumps (JObj [(''player_status'', last_player_status st)]))
   \<and> (status_code r = 200 \<longrightarrow> get_player_status (Inr r) st = Verbatim (resp_text r))"
  by (simp add: get_player_status_def)

theorem get_player_status_fallback_witness:
  "status_code (sample_response 503 ''busy'') \<noteq> 200
   \<and> get_player_status (Inr (sample_response 503 ''busy'')) initial_state
       = Dumps (JObj [(''player_status'', last_player_status initial_state)])
   \<and> status_code (sample_response 200 ''{}'') = 200
   \<and> get_player_status (Inr (sample_response 200 ''{}'')) initial_state = Verbatim ''{}''
   \<and> get_player_status (Inl (Exn ConnectionError ''refused'')) initial_state
       = Dumps (JObj [(''player_status'', last_player_status initial_state),
                      (''error'', JStr ''refused'')])"
  using get_player_status_fallback [of "Exn ConnectionError ''refused''" initial_state "sample_response 503 ''busy''"]
        get_player_status_fallback [of "Exn ConnectionError ''refused''" initial_state "sample_response 200 ''{}''"]
  by (simp add: sample_response_def)

text \<open>
  The claim as it was stated, that the error description is attached on every failure,
  fails for a response with status 500: the reply is the cached snapshot and has no
  \<open>error\<close> entry.
\<close>

theorem get_player_status_non2xx_counterexample:
  "\<not> (200 \<le> status_code (sample_response 500 ''Internal Server Error'')
       \<and> status_code (sample_response 500 ''Internal Server Error'') < 300)
   \<and> get_player_status (Inr (sample_response 500 ''Internal Server Error'')) initial_state
       = Dumps (JObj [(''player_status'', last_player_status initial_state)])
   \<and> reply_error (get_player_status (Inr (sample_response 500 ''Internal Server Error'')) initial_state)
       = None"
  by (simp add: get_player_status_def sample_response_def reply_error_def)

section \<open>Movement request\<close>

lemma move_player_recognized_eq:
  assumes "map_of detect_map_coordinates (lower destination) = Some pos"
  shows "move_player env destination =
     (JObj [(''success'', JBool True),
            (''message'', JStr (''Executando movimento para '' @ lower destination @ ''...'')),
            (''new_position'', pos),
            (''frontend_triggered'', JBool True),
            (''player_status'',
               JObj [(''destination'', JStr (lower destination)),
                     (''target_coordinates'', pos),
                     (''movement_type'', JStr ''pathfinding''),
                     (''status'', JStr ''moving'')])],
      snd (notify_frontend env
             (''window.mcpMovePlayer('' @ [CHR 0x22] @ lower destination @ [CHR 0x22] @ '')'')))"
proof -
  from assms have "lower destination \<in> fst ` set detect_map_coordinates"
    by (metis map_of_eq_None_iff option.distinct(1))
  then have "lower destination \<in> set (map fst detect_map_coordinates)"
    by simp
  then show ?thesis
    using assms
    by (simp add: move_player_def Let_def split: prod.splits sum.splits)
qed

lemma lower_CASA: "lower ''CASA'' = ''casa''"
  by code_simp

lemma lookup_casa: "map_of detect_map_coordinates ''casa'' = Some (coord 9 3)"
  by (simp add: detect_map_coordinates_value)

text \<open>
  Claim C6. For every destination string whose lowercase form is a recognized destination
  name, with scanner coordinates \<open>pos\<close>, and for every outcome of the notification (the
  task is scheduled, or \<open>asyncio.run\<close> runs the coroutine and the post succeeds or fails,
  or \<open>asyncio.run\<close> raises), \<open>move_player\<close> returns \<open>success\<close> true with \<open>new_position\<close>
  equal to \<open>pos\<close>. The reply does not depend on the outcome of the notification: no
  failure of it changes the reply or reaches the caller.
\<close>

theorem move_player_recognized:
  assumes "map_of detect_map_coordinates (lower destination) = Some pos"
  shows "fst (move_player env destination) =
           JObj [(''success'', JBool True),
                 (''message'', JStr (''Executando movimento para '' @ lower destination @ ''...'')),
                 (''new_position'', pos),
                 (''frontend_triggered'', JBool True),
                 (''player_status'',
                    JObj [(''destination'', JStr (lower destination)),
                          (''target_coordinates'', pos),
                          (''movement_type'', JStr ''pathfinding''),
                          (''status'', JStr ''moving'')])]
         \<and> fst (move_player env destination) = fst (move_player env' destination)"
  by (simp add: move_player_recognized_eq [OF assms])

theorem move_player_recognized_witness:
  "map_of detect_map_coordinates (lower ''CASA'') = Some (coord 9 3)
   \<and> fst (move_player
            (const_notify_env (Inl (Exn RuntimeError ''no running event loop'')) (Inr ())
                              (Inl (Exn ConnectionError ''Cannot connect to host 127.0.0.1:8080'')))
            ''CASA'')
       = JObj [(''success'', JBool True),
               (''message'', JStr ''Executando movimento para casa...''),
               (''new_position'', JObj [(''x'', JInt 9), (''y'', JInt 3)]),
               (''frontend_triggered'', JBool True),
               (''player_status'',
                  JObj [(''destination'', JStr ''casa''),
                        (''target_coordinates'', JObj [(''x'', JInt 9), (''y'', JInt 3)]),
                        (''movement_type'', JStr ''pathfinding''),
                        (''status'', JStr ''moving'')])]"
proof -
  have h: "map_of detect_map_coordinates (lower ''CASA'') = Some (coord 9 3)"
    by (simp add: lower_CASA lookup_casa)
  from move_player_recognized [OF h] h show ?thesis
    by (simp add: lower_CASA coord_def)
qed

text \<open>
  Claim C7. \<open>move_player\<close> is case-insensitive in its destination: for every destination
  string \<open>d\<close> whose lowercase form is a recognized destination name, \<open>move_player(d)\<close> and
  \<open>move_player(lowercase(d))\<close> give the same reply and start the same notification; in
  particular \<open>move_player("CASA")\<close> equals \<open>move_player("casa")\<close>.
\<close>

theorem move_player_case_insensitive:
  "(lower destination \<in> set (map fst detect_map_coordinates) \<longrightarrow>
      move_player env destination = move_player env (lower destination))
   \<and> move_player env ''CASA'' = move_player env ''casa''"
proof -
  have a: "move_player env d = move_player env (lower d)"
    if r: "lower d \<in> set (map fst detect_map_coordinates)" for d
  proof -
    have l: "lower (lower d) = lower d"
      using r by (rule lower_destination_name)
    from r obtain pos where p: "map_of detect_map_coordinates (lower d) = Some pos"
      by (metis map_of_eq_None_iff not_None_eq set_map)
    from p l have p': "map_of detect_map_coordinates (lower (lower d)) = Some pos"
      by simp
    show ?thesis
      by (simp add: move_player_recognized_eq [OF p] move_player_recognized_eq [OF p'] l)
  qed
  have "lower ''CASA'' \<in> set (map fst detect_map_coordinates)"
    by (simp add: lower_CASA destination_names)
  from a [OF this] have "move_player env ''CASA'' = move_player env ''casa''"
    by (simp add: lower_CASA)
  with a show ?thesis by blast
qed

theorem move_player_case_insensitive_witness:
  "lower ''Loja_Carros'' \<in> set (map fst detect_map_coordinates)
   \<and> move_player (const_notify_env (Inr ()) (Inr ()) (Inr ())) ''Loja_Carros''
       = move_player (const_notify_env (Inr ()) (Inr ()) (Inr ())) (lower ''Loja_Carros'')"
proof -
  have l: "lower ''Loja_Carros'' = ''loja_carros''" by code_simp
  have h: "lower ''Loja_Carros'' \<in> set (map fst detect_map_coordinates)"
    by (simp add: l destination_names)
  from move_player_case_insensitive [of "''Loja_Carros''" "const_notify_env (Inr ()) (Inr ()) (Inr ())"] h
  show ?thesis by blast
qed

text \<open>
  Claim C8. For every destination string whose lowercase form is not a recognized
  destination name, \<open>move_player\<close> returns \<open>success\<close> false with a message that names the
  destination as given and lists all valid destination names (\<open>trabalho\<close>, \<open>banco\<close>,
  \<open>casa\<close>, \<open>mercado\<close>, \<open>loja_carros\<close>), and starts no notification of the frontend.
\<close>

theorem move_player_unknown:
  assumes "lower destination \<notin> set (map fst detect_map_coordinates)"
  shows "move_player env destination =
           (JObj [(''success'', JBool False),
                  (''message'',
                     JStr (''Destino '' @ [CHR 0x27] @ destination @ [CHR 0x27] @ '' n'' @ a_tilde
                           @ ''o encontrado. Destinos dispon'' @ i_acute @ ''veis: ''
                           @ ''trabalho, banco, casa, mercado, loja_carros''))],
            [])"
  using assms
  by (simp add: move_player_def Let_def) (simp add: destination_names)

theorem move_player_unknown_witness:
  "lower ''nonexistent'' \<notin> set (map fst detect_map_coordinates)
   \<and> move_player (const_notify_env (Inr ()) (Inr ()) (Inr ())) ''nonexistent'' =
           (JObj [(''success'', JBool False),
                  (''message'',
                     JStr (''Destino '' @ [CHR 0x27] @ ''nonexistent'' @ [CHR 0x27] @ '' n'' @ a_tilde
                           @ ''o encontrado. Destinos dispon'' @ i_acute @ ''veis: ''
                           @ ''trabalho, banco, casa, mercado, loja_carros''))],
            [])"
proof -
  have l: "lower ''nonexistent'' = ''nonexistent''" by code_simp
  have h: "lower ''nonexistent'' \<notin> set (map fst detect_map_coordinates)"
    by (simp add: l destination_names)
  from move_player_unknown [OF h] h show ?thesis by blast
qed

section \<open>Upstream generation call\<close>

lemma try_bind_Inr_iff:
  "(try_bind m f = Inr r) = (\<exists>v. m = Inr v \<and> f v = Inr r)"
  by (cases m) (simp_all add: try_bind_def)

lemma try_bind_Inl_iff:
  "(try_bind m f = Inl e) = (m = Inl e \<or> (\<exists>v. m = Inr v \<and> f v = Inl e))"
  by (cases m) (simp_all add: try_bind_def)

lemma member_of_Some_iff:
  "(member_of k v = Some w) = (\<exists>kvs. v = JObj kvs \<and> map_of kvs k = Some w)"
  by (cases v) simp_all

lemma first_of_Some_iff:
  "(first_of v = Some w) = (\<exists>vs. v = JArr (w # vs))"
  by (cases "(v)" rule: first_of.cases) auto

lemma py_getitem_Inr_iff:
  "(py_getitem v k = Inr w) = (member_of k v = Some w)"
  by (cases v) (simp_all split: option.splits)

lemma py_getitem0_Inr_iff:
  "(py_getitem0 v = Inr w) = (first_of v = Some w \<or> (\<exists>c s. v = JStr (c # s) \<and> w = JStr [c]))"
  by (cases "(v)" rule: py_getitem0.cases) auto

lemma py_contains_raises:
  "py_contains k v = Inl e \<Longrightarrow> class_of e = TypeError"
  by (cases v) auto

lemma py_getitem_raises:
  "py_getitem v k = Inl e \<Longrightarrow> class_of e = TypeError \<or> class_of e = KeyError"
  by (cases v) (auto split: option.splits)

lemma py_getitem0_raises:
  "py_getitem0 v = Inl e \<Longrightarrow> class_of e = TypeError \<or> class_of e = KeyError \<or> class_of e = IndexError"
  by (cases "(v)" rule: py_getitem0.cases) auto

lemma py_len_raises:
  "py_len v = Inl e \<Longrightarrow> class_of e = TypeError"
  by (cases v) auto

lemma extract_response_raises:
  assumes "extract_response result = Inl e"
  shows "class_of e = TypeError \<or> class_of e = KeyError \<or> class_of e = IndexError"
  using assms
  by (auto simp: extract_response_def try_bind_Inl_iff split: if_splits
           dest: py_contains_raises py_getitem_raises py_getitem0_raises py_len_raises)

lemma extract_response_text:
  assumes "first_text_part result = Some t"
  shows "extract_response result = Inr (JObj [(''response'', t)])"
proof -
  from assms obtain candidates candidate content parts part where
    s: "member_of ''candidates'' result = Some candidates"
       "first_of candidates = Some candidate"
       "member_of ''content'' candidate = Some content"
       "member_of ''parts'' content = Some parts"
       "first_of parts = Some part"
       "member_of ''text'' part = Some t"
    unfolding first_text_part_def by (auto simp: bind_eq_Some_conv)
  from s(1) obtain kvs where r: "result = JObj kvs" "map_of kvs ''candidates'' = Some candidates"
    by (auto simp: member_of_Some_iff)
  from r(2) have has: "''candidates'' \<in> set (map fst kvs)"
    by (metis map_of_eq_None_iff option.distinct(1) set_map)
  from s(2) obtain cs where c: "candidates = JArr (candidate # cs)"
    by (auto simp: first_of_Some_iff)
  from s(5) obtain ps where p: "parts = JArr (part # ps)"
    by (auto simp: first_of_Some_iff)
  have g: "py_getitem candidate ''content'' = Inr content"
       "py_getitem content ''parts'' = Inr parts"
       "py_getitem part ''text'' = Inr t"
    using s by (simp_all add: py_getitem_Inr_iff)
  show ?thesis
    unfolding extract_response_def
    using has g by (simp add: r c p try_bind_def)
qed

lemma extract_response_returns:
  assumes "extract_response result = Inr reply"
  shows "reply = invalid_response \<or> (\<exists>t. first_text_part result = Some t)"
  using assms
  by (auto simp: extract_response_def try_bind_Inr_iff py_getitem_Inr_iff py_getitem0_Inr_iff
                 first_text_part_def split: if_splits)

lemma gemini_except_builtin:
  assumes "class_of e = TypeError \<or> class_of e = KeyError \<or> class_of e = IndexError"
  shows "gemini_except e = JObj [(''error'', JStr (''Erro interno: '' @ str_exn e)), (''status_code'', JInt 500)]"
  using assms by (auto simp: gemini_except_def isinstance_def)


lemma gemini_ok_reply:
  assumes "GEMINI_API_KEY env = Some key" "key \<noteq> []"
    and "json_loads env contents_json = Inr contents"
    and "requests_post env (api_url key) (JObj [(''contents'', contents)]) = Inr r"
    and "ok r" "resp_json r = Inr result"
  shows "generate_gemini_content env contents_json =
           ((case extract_response result of Inl e \<Rightarrow> gemini_except e | Inr reply \<Rightarrow> reply),
            [(api_url key, JObj [(''contents'', contents)])])"
  using assms by (simp add: generate_gemini_content_def Let_def split: sum.splits)

lemma str_nat_samples:
  "str_nat 404 = ''404''" "str_nat 500 = ''500''"
  by code_simp+

lemma first_text_part_sample:
  "first_text_part sample_result = Some (JStr ''Ola'')"
  "first_text_part (JObj [(''promptFeedback'', JObj [(''blockReason'', JStr ''SAFETY'')])]) = None"
  by (simp_all add: first_text_part_def sample_result_def)

text \<open>
  Claim C3, as amended. \<open>generate_gemini_content\<close> maps each outcome as follows. With no
  credential configured (the variable unset or empty) it returns the configuration-error
  payload and makes no network call. With a credential: input that \<open>json.loads\<close> rejects
  yields the error payload with status code 400, and no network call; otherwise exactly
  one call is made, and a timeout yields status code 408, a transport failure yields
  status code 500 with the details of the failure in the message, a non-success upstream
  HTTP status yields an error payload whose message echoes the upstream status and body
  and whose status code is the upstream status itself, and a success with a JSON body
  yields the first candidate's first text part under \<open>response\<close>, or status code 500 when
  the body has no such part.
\<close>

theorem generate_gemini_content_outcomes:
  "(GEMINI_API_KEY env = None \<or> GEMINI_API_KEY env = Some [] \<longrightarrow>
      generate_gemini_content env contents_json =
        (JObj [(''error'', JStr (''GEMINI_API_KEY n'' @ a_tilde @ ''o configurada no arquivo .env'')),
               (''status_code'', JInt 500)], []))
   \<and> (GEMINI_API_KEY env = Some key \<and> key \<noteq> [] \<longrightarrow>
        (json_loads env contents_json = Inl e \<and> isinstance e JSONDecodeError \<longrightarrow>
           generate_gemini_content env contents_json =
             (JObj [(''error'', JStr (''JSON inv'' @ a_acute @ ''lido fornecido'')),
                    (''status_code'', JInt 400)], []))
      \<and> (json_loads env contents_json = Inr contents \<longrightarrow>
           snd (generate_gemini_content env contents_json)
             = [(api_url key, JObj [(''contents'', contents)])]
         \<and> (requests_post env (api_url key) (JObj [(''contents'', contents)]) = Inl e
              \<and> isinstance e Timeout \<longrightarrow>
              fst (generate_gemini_content env contents_json) =
                JObj [(''error'', JStr ''Timeout na chamada da API Gemini''),
                      (''status_code'', JInt 408)])
         \<and> (requests_post env (api_url key) (JObj [(''contents'', contents)]) = Inl e
              \<and> (class_of e = ConnectionError \<or> class_of e = RequestException) \<longrightarrow>
              fst (generate_gemini_content env contents_json) =
                JObj [(''error'', JStr (''Erro de conex'' @ a_tilde @ ''o com a API Gemini: '' @ str_exn e)),
                      (''status_code'', JInt 500)])
         \<and> (requests_post env (api_url key) (JObj [(''contents'', contents)]) = Inr r
              \<and> \<not> ok r \<longrightarrow>
              fst (generate_gemini_content env contents_json) =
                JObj [(''error'', JStr (''Erro na API Gemini: '' @ str_nat (status_code r)
                                         @ '' - '' @ resp_text r)),
                      (''status_code'', JInt (int (status_code r)))])
         \<and> (requests_post env (api_url key) (JObj [(''contents'', contents)]) = Inr r
              \<and> ok r \<and> resp_json r = Inr result \<longrightarrow>
              (first_text_part result = Some t \<longrightarrow>
                 fst (generate_gemini_content env contents_json) = JObj [(''response'', t)])
            \<and> (first_text_part result = None \<longrightarrow>
                 reply_status (fst (generate_gemini_content env contents_json)) = Some (JInt 500)))))"
proof -
  have no_key: "generate_gemini_content env contents_json =
        (JObj [(''error'', JStr (''GEMINI_API_KEY n'' @ a_tilde @ ''o configurada no arquivo .env'')),
               (''status_code'', JInt 500)], [])"
    if "GEMINI_API_KEY env = None \<or> GEMINI_API_KEY env = Some []"
    using that by (auto simp: generate_gemini_content_def)
  have bad_json: "generate_gemini_content env contents_json =
             (JObj [(''error'', JStr (''JSON inv'' @ a_acute @ ''lido fornecido'')),
                    (''status_code'', JInt 400)], [])"
    if "GEMINI_API_KEY env = Some key" "key \<noteq> []"
       "json_loads env contents_json = Inl e" "isinstance e JSONDecodeError"
    using that by (simp add: generate_gemini_content_def gemini_except_def)
  have calls: "snd (generate_gemini_content env contents_json)
             = [(api_url key, JObj [(''contents'', contents)])]"
    if "GEMINI_API_KEY env = Some key" "key \<noteq> []" "json_loads env contents_json = Inr contents"
    using that by (simp add: generate_gemini_content_def Let_def split: sum.splits)
  have timeout: "fst (generate_gemini_content env contents_json) =
                JObj [(''error'', JStr ''Timeout na chamada da API Gemini''),
                      (''status_code'', JInt 408)]"
    if "GEMINI_API_KEY env = Some key" "key \<noteq> []" "json_loads env contents_json = Inr contents"
       "requests_post env (api_url key) (JObj [(''contents'', contents)]) = Inl e"
       "isinstance e Timeout"
    using that by (simp add: generate_gemini_content_def Let_def gemini_except_def isinstance_def)
  have transport: "fst (generate_gemini_content env contents_json) =
                JObj [(''error'', JStr (''Erro de conex'' @ a_tilde @ ''o com a API Gemini: '' @ str_exn e)),
                      (''status_code'', JInt 500)]"
    if "GEMINI_API_KEY env = Some key" "key \<noteq> []" "json_loads env contents_json = Inr contents"
       "requests_post env (api_url key) (JObj [(''contents'', contents)]) = Inl e"
       "class_of e = ConnectionError \<or> class_of e = RequestException"
    using that by (auto simp: generate_gemini_content_def Let_def gemini_except_def isinstance_def)
  have upstream: "fst (generate_gemini_content env contents_json) =
                JObj [(''error'', JStr (''Erro na API Gemini: '' @ str_nat (status_code r)
                                         @ '' - '' @ resp_text r)),
                      (''status_code'', JInt (int (status_code r)))]"
    if "GEMINI_API_KEY env = Some key" "key \<noteq> []" "json_loads env contents_json = Inr contents"
       "requests_post env (api_url key) (JObj [(''contents'', contents)]) = Inr r" "\<not> ok r"
    using that by (simp add: generate_gemini_content_def Let_def)
  have first_text: "fst (generate_gemini_content env contents_json) = JObj [(''response'', t)]"
    if "GEMINI_API_KEY env = Some key" "key \<noteq> []" "json_loads env contents_json = Inr contents"
       "requests_post env (api_url key) (JObj [(''contents'', contents)]) = Inr r" "ok r"
       "resp_json r = Inr result" "first_text_part result = Some t"
    using that by (simp add: gemini_ok_reply extract_response_text)
  have shape: "reply_status (fst (generate_gemini_content env contents_json)) = Some (JInt 500)"
    if h: "GEMINI_API_KEY env = Some key" "key \<noteq> []" "json_loads env contents_json = Inr contents"
       "requests_post env (api_url key) (JObj [(''contents'', contents)]) = Inr r" "ok r"
       "resp_json r = Inr result" and n: "first_text_part result = None"
  proof (cases "extract_response result")
    case (Inl x)
    from extract_response_raises [OF Inl] have "reply_status (gemini_except x) = Some (JInt 500)"
      by (simp add: gemini_except_builtin reply_status_def)
    with Inl h show ?thesis by (simp add: gemini_ok_reply)
  next
    case (Inr reply)
    from extract_response_returns [OF Inr] n have "reply = invalid_response" by simp
    with Inr h show ?thesis
      by (simp add: gemini_ok_reply invalid_response_def reply_status_def)
  qed
  from no_key bad_json calls timeout transport upstream first_text shape show ?thesis
    by blast
qed

theorem generate_gemini_content_outcomes_witness:
  "generate_gemini_content
     (const_gemini_env None (Inr (JArr [])) (Inr (sample_response 200 ''{}''))) ''[]''
     = (JObj [(''error'', JStr (''GEMINI_API_KEY n'' @ a_tilde @ ''o configurada no arquivo .env'')),
              (''status_code'', JInt 500)], [])
   \<and> generate_gemini_content
       (const_gemini_env (Some ''k'') (Inl (Exn JSONDecodeError ''Expecting value''))
                         (Inr (sample_response 200 ''{}''))) ''[''
     = (JObj [(''error'', JStr (''JSON inv'' @ a_acute @ ''lido fornecido'')),
              (''status_code'', JInt 400)], [])
   \<and> fst (generate_gemini_content
            (const_gemini_env (Some ''k'') (Inr (JArr [])) (Inl (Exn Timeout ''Read timed out.''))) ''[]'')
     = JObj [(''error'', JStr ''Timeout na chamada da API Gemini''), (''status_code'', JInt 408)]
   \<and> fst (generate_gemini_content
            (const_gemini_env (Some ''k'') (Inr (JArr [])) (Inl (Exn ConnectionError ''refused''))) ''[]'')
     = JObj [(''error'', JStr (''Erro de conex'' @ a_tilde @ ''o com a API Gemini: refused'')),
             (''status_code'', JInt 500)]
   \<and> fst (generate_gemini_content
            (const_gemini_env (Some ''k'') (Inr (JArr [])) (Inr (sample_response 500 ''oops''))) ''[]'')
     = JObj [(''error'', JStr ''Erro na API Gemini: 500 - oops''), (''status_code'', JInt 500)]
   \<and> fst (generate_gemini_content
            (const_gemini_env (Some ''k'') (Inr (JArr []))
               (Inr ((sample_response 200 ''{}'')\<lparr>resp_json := Inr sample_result\<rparr>))) ''[]'')
     = JObj [(''response'', JStr ''Ola'')]
   \<and> reply_status (fst (generate_gemini_content
            (const_gemini_env (Some ''k'') (Inr (JArr []))
               (Inr ((sample_response 200 ''{}'')
                      \<lparr>resp_json := Inr (JObj [(''promptFeedback'',
                                                 JObj [(''blockReason'', JStr ''SAFETY'')])])\<rparr>))) ''[]''))
     = Some (JInt 500)"
proof -
  have a: "generate_gemini_content
     (const_gemini_env None (Inr (JArr [])) (Inr (sample_response 200 ''{}''))) ''[]''
     = (JObj [(''error'', JStr (''GEMINI_API_KEY n'' @ a_tilde @ ''o configurada no arquivo .env'')),
              (''status_code'', JInt 500)], [])"
    using generate_gemini_content_outcomes
            [where env = "const_gemini_env None (Inr (JArr [])) (Inr (sample_response 200 ''{}''))"
               and contents_json = "''[]''"]
    by (simp add: const_gemini_env_def)
  have b: "generate_gemini_content
       (const_gemini_env (Some ''k'') (Inl (Exn JSONDecodeError ''Expecting value''))
                         (Inr (sample_response 200 ''{}''))) ''[''
     = (JObj [(''error'', JStr (''JSON inv'' @ a_acute @ ''lido fornecido'')),
              (''status_code'', JInt 400)], [])"
    using generate_gemini_content_outcomes
            [where env = "const_gemini_env (Some ''k'') (Inl (Exn JSONDecodeError ''Expecting value''))
                         (Inr (sample_response 200 ''{}''))"
               and contents_json = "''[''" and key = "''k''"
               and e = "Exn JSONDecodeError ''Expecting value''"]
    by (simp add: const_gemini_env_def isinstance_def)
  have c: "fst (generate_gemini_content
            (const_gemini_env (Some ''k'') (Inr (JArr [])) (Inl (Exn Timeout ''Read timed out.''))) ''[]'')
     = JObj [(''error'', JStr ''Timeout na chamada da API Gemini''), (''status_code'', JInt 408)]"
    using generate_gemini_content_outcomes
            [where env = "const_gemini_env (Some ''k'') (Inr (JArr [])) (Inl (Exn Timeout ''Read timed out.''))"
               and contents_json = "''[]''" and key = "''k''" and contents = "JArr []"
               and e = "Exn Timeout ''Read timed out.''"]
    by (simp add: const_gemini_env_def isinstance_def)
  have d: "fst (generate_gemini_content
            (const_gemini_env (Some ''k'') (Inr (JArr [])) (Inl (Exn ConnectionError ''refused''))) ''[]'')
     = JObj [(''error'', JStr (''Erro de conex'' @ a_tilde @ ''o com a API Gemini: refused'')),
             (''status_code'', JInt 500)]"
    using generate_gemini_content_outcomes
            [where env = "const_gemini_env (Some ''k'') (Inr (JArr [])) (Inl (Exn ConnectionError ''refused''))"
               and contents_json = "''[]''" and key = "''k''" and contents = "JArr []"
               and e = "Exn ConnectionError ''refused''"]
    by (simp add: const_gemini_env_def)
  have e: "fst (generate_gemini_content
            (const_gemini_env (Some ''k'') (Inr (JArr [])) (Inr (sample_response 500 ''oops''))) ''[]'')
     = JObj [(''error'', JStr ''Erro na API Gemini: 500 - oops''), (''status_code'', JInt 500)]"
    using generate_gemini_content_outcomes
            [where env = "const_gemini_env (Some ''k'') (Inr (JArr [])) (Inr (sample_response 500 ''oops''))"
               and contents_json = "''[]''" and key = "''k''" and contents = "JArr []"
               and r = "sample_response 500 ''oops''"]
    by (simp add: const_gemini_env_def sample_response_def ok_def str_nat_samples)
  have f: "fst (generate_gemini_content
            (const_gemini_env (Some ''k'') (Inr (JArr []))
               (Inr ((sample_response 200 ''{}'')\<lparr>resp_json := Inr sample_result\<rparr>))) ''[]'')
     = JObj [(''response'', JStr ''Ola'')]"
    using generate_gemini_content_outcomes
            [where env = "const_gemini_env (Some ''k'') (Inr (JArr []))
               (Inr ((sample_response 200 ''{}'')\<lparr>resp_json := Inr sample_result\<rparr>))"
               and contents_json = "''[]''" and key = "''k''" and contents = "JArr []"
               and r = "(sample_response 200 ''{}'')\<lparr>resp_json := Inr sample_result\<rparr>"
               and result = sample_result and t = "JStr ''Ola''"]
    by (simp add: const_gemini_env_def sample_response_def ok_def first_text_part_sample)
  have g: "reply_status (fst (generate_gemini_content
            (const_gemini_env (Some ''k'') (Inr (JArr []))
               (Inr ((sample_response 200 ''{}'')
                      \<lparr>resp_json := Inr (JObj [(''promptFeedback'',
                                                 JObj [(''blockReason'', JStr ''SAFETY'')])])\<rparr>))) ''[]''))
     = Some (JInt 500)"
    using generate_gemini_content_outcomes
            [where env = "const_gemini_env (Some ''k'') (Inr (JArr []))
               (Inr ((sample_response 200 ''{}'')
                      \<lparr>resp_json := Inr (JObj [(''promptFeedback'',
                                                 JObj [(''blockReason'', JStr ''SAFETY'')])])\<rparr>))"
               and contents_json = "''[]''" and key = "''k''" and contents = "JArr []"
               and r = "(sample_response 200 ''{}'')
                      \<lparr>resp_json := Inr (JObj [(''promptFeedback'',
                                                 JObj [(''blockReason'', JStr ''SAFETY'')])])\<rparr>"
               and result = "JObj [(''promptFeedback'', JObj [(''blockReason'', JStr ''SAFETY'')])]"]
    by (simp add: const_gemini_env_def sample_response_def ok_def first_text_part_sample)
  from a b c d e f g show ?thesis by blast
qed

text \<open>
  The claim as it was stated, that a non-success upstream status yields an error of the
  500 class, fails for an upstream 404: the status code of the reply is 404.
\<close>

theorem generate_gemini_content_upstream_status_counterexample:
  "\<not> ok (sample_response 404 ''Not Found'')
   \<and> fst (generate_gemini_content
            (const_gemini_env (Some ''k'') (Inr (JArr [])) (Inr (sample_response 404 ''Not Found''))) ''[]'')
       = JObj [(''error'', JStr ''Erro na API Gemini: 404 - Not Found''), (''status_code'', JInt 404)]
   \<and> \<not> class_500 (fst (generate_gemini_content
            (const_gemini_env (Some ''k'') (Inr (JArr [])) (Inr (sample_response 404 ''Not Found''))) ''[]''))"
  by (simp add: generate_gemini_content_def const_gemini_env_def sample_response_def ok_def
                str_nat_samples class_500_def reply_status_def)

end
